theory Spec2Isabelle
  imports Main
begin

section \<open>JavaScript values\<close>

text \<open>
  The values that flow through the handlers: what \<open>JSON.parse\<close> produces, plus
  \<open>undefined\<close>. An object is an association list of its own properties in insertion
  order. Numbers are the integers (identifiers, counters); fractional doubles and
  \<open>NaN\<close> do not occur in the code paths modelled here. A string is a list of
  characters; the only string operations used are \<open>startsWith\<close>, \<open>slice\<close> and
  \<open>length\<close>, on ASCII literals.
\<close>

datatype jsval =
    JUndefined
  | JNull
  | JBool bool
  | JNum int
  | JStr string
  | JArr "jsval list"
  | JObj "(string \<times> jsval) list"

text \<open>
  The truthiness test of \<open>if (v)\<close>: \<open>undefined\<close>, \<open>null\<close>, \<open>false\<close>, \<open>0\<close> and the
  empty string are falsy; every object and every array is truthy, the empty ones included.
\<close>

fun truthy :: "jsval \<Rightarrow> bool" where
  "truthy JUndefined = False"
| "truthy JNull = False"
| "truthy (JBool b) = b"
| "truthy (JNum n) = (n \<noteq> 0)"
| "truthy (JStr s) = (s \<noteq> [])"
| "truthy (JArr xs) = True"
| "truthy (JObj kvs) = True"

text \<open>
  Property read \<open>v.k\<close> on a value that is not \<open>null\<close> or \<open>undefined\<close>: the own property
  of an object, \<open>undefined\<close> when there is none. Every read in the handlers is guarded by
  a truthiness test (or by \<open>?.\<close>), so the \<open>TypeError\<close> of a read on \<open>null\<close> is never
  reached.
\<close>

fun js_prop :: "jsval \<Rightarrow> string \<Rightarrow> jsval" where
  "js_prop (JObj kvs) k = (case map_of kvs k of Some v \<Rightarrow> v | None \<Rightarrow> JUndefined)"
| "js_prop v k = JUndefined"

definition startsWith :: "string \<Rightarrow> string \<Rightarrow> bool" where
  "startsWith s p = (take (length p) s = p)"

text \<open>\<open>s.slice(n)\<close> for a non-negative \<open>n\<close>: the rest of the string from index \<open>n\<close>,
  empty when \<open>n\<close> is past the end.\<close>

definition slice :: "string \<Rightarrow> nat \<Rightarrow> string" where
  "slice s n = drop n s"

section \<open>Exceptions, requests, responses\<close>

text \<open>A validation issue of the schema library: its path and, for a custom check,
  the message the schema gives.\<close>

datatype issue =
    Invalid_type "string list"
  | Invalid_string "string list" string
  | Too_small "string list" string

datatype jwt_failure = InvalidSignature | Malformed

datatype exn =
    ZodError "issue list"
  | JwtError jwt_failure
  | Error string

text \<open>The outcome of awaiting a call that may throw.\<close>

datatype 'a result = Throws exn | Returns 'a

datatype body = Json jsval | Text string | Issues "issue list"

record response =
  status :: nat
  body :: body

record env =
  DATABASE_URL :: string
  DIRECT_URL :: "string option"

text \<open>A request: its headers, and what \<open>c.req.json()\<close> yields (the parsed body, or
  the exception of a body that is not JSON).\<close>

record request =
  headers :: "string \<rightharpoonup> string"
  json_body :: "jsval result"

text \<open>The per-request context \<open>c\<close>: the request, the environment bindings and the
  variables written by \<open>c.set\<close> and read by \<open>c.get\<close>.\<close>

record CustomContext =
  req :: request
  env :: env
  vars :: "string \<rightharpoonup> jsval"

definition header :: "request \<Rightarrow> string \<Rightarrow> string option" where
  "header r name = headers r name"



definition c_set :: "CustomContext \<Rightarrow> string \<Rightarrow> jsval \<Rightarrow> CustomContext" where
  "c_set c key v = c\<lparr>vars := (vars c)(key \<mapsto> v)\<rparr>"

definition c_get :: "CustomContext \<Rightarrow> string \<Rightarrow> jsval" where
  "c_get c key = (case vars c key of Some v \<Rightarrow> v | None \<Rightarrow> JUndefined)"

text \<open>\<open>c.json(v, s)\<close> and \<open>c.body(t, s)\<close> build a response; the status defaults to 200.\<close>

definition c_json :: "jsval \<Rightarrow> nat \<Rightarrow> response" where
  "c_json v s = \<lparr>status = s, body = Json v\<rparr>"

definition c_body :: "string \<Rightarrow> nat \<Rightarrow> response" where
  "c_body t s = \<lparr>status = s, body = Text t\<rparr>"

text \<open>
  What a handler does besides returning: the calls it makes to the token library and to
  the persistence layer, the variables it sets, the call of the next handler, and the
  lines it writes with \<open>console.error\<close>, in the order they happen.
\<close>

datatype event =
    Verify string string
  | Sign jsval string
  | FindUnique string string string
  | Set string jsval
  | Next
  | ConsoleError exn

text \<open>The result of running a handler: the response it returns (\<open>None\<close> when it returns
  \<open>undefined\<close>), the context afterwards and the trace of its effects.\<close>

record outcome =
  response :: "response option"
  ctx :: CustomContext
  events :: "event list"

section \<open>The authentication middleware (middleware.ts)\<close>

text \<open>
  \<open>verify\<close> is the token library's function and \<open>next\<close> the rest of the handler chain;
  both are parameters. \<open>next\<close> may change the context and may throw. The whole body is
  inside one \<open>try\<close>, so an exception of \<open>verify\<close> and an exception of \<open>next\<close> both end in
  the \<open>catch\<close> branch.
\<close>

definition auth_catch :: "exn \<Rightarrow> CustomContext \<Rightarrow> event list \<Rightarrow> outcome" where
  "auth_catch error c evs =
     \<lparr>response = Some (c_json (JObj [(''message'', JStr ''Invalid Token'')]) 400),
      ctx = c,
      events = evs @ [ConsoleError error]\<rparr>"

definition authMiddleware ::
  "(string \<Rightarrow> string \<Rightarrow> jsval result) \<Rightarrow> (CustomContext \<Rightarrow> unit result \<times> CustomContext) \<Rightarrow> CustomContext \<Rightarrow> outcome"
where
  "authMiddleware verify next c =
     (case header (req c) ''Authorization'' of
        None \<Rightarrow>
          \<lparr>response = Some (c_json (JObj [(''message'', JStr ''Access Denied. No token provided.'')]) 401),
           ctx = c, events = []\<rparr>
      | Some authorizationHeader \<Rightarrow>
          if authorizationHeader = [] \<or> \<not> startsWith authorizationHeader ''Bearer '' then
            \<lparr>response = Some (c_json (JObj [(''message'', JStr ''Access Denied. No token provided.'')]) 401),
             ctx = c, events = []\<rparr>
          else
            let token = slice authorizationHeader 7 in
            (case verify token ''BLOG_SECRET'' of
               Throws error \<Rightarrow> auth_catch error c [Verify token ''BLOG_SECRET'']
             | Returns decoded \<Rightarrow>
                 if truthy decoded then
                   (case next (c_set c ''user'' decoded) of
                      (Throws error, c') \<Rightarrow>
                        auth_catch error c'
                          [Verify token ''BLOG_SECRET'', Set ''user'' decoded, Next]
                    | (Returns u, c') \<Rightarrow>
                        \<lparr>response = None, ctx = c',
                         events = [Verify token ''BLOG_SECRET'', Set ''user'' decoded, Next]\<rparr>)
                 else
                   \<lparr>response = Some (c_body ''You are an unauthorized user, sorry'' 401),
                    ctx = c, events = [Verify token ''BLOG_SECRET'']\<rparr>))"

section \<open>The sign-in handler (index.ts)\<close>

text \<open>
  \<open>z.string()\<close> with its checks: a value that is not a string is one type issue at the
  field's path and the checks are not run; a string is handed to the checks.
\<close>

fun zod_string :: "string list \<Rightarrow> (string \<Rightarrow> issue list) \<Rightarrow> jsval \<Rightarrow> issue list" where
  "zod_string path checks (JStr s) = checks s"
| "zod_string path checks v = [Invalid_type path]"

text \<open>
  \<open>userSigninSchema.parse(data)\<close>: \<open>email\<close> must be a string that the library's e-mail
  pattern accepts (the pattern is the parameter \<open>is_email\<close>), \<open>password\<close> a string of at
  least 6 characters. The issues of both fields are collected; any issue throws.
\<close>

definition userSigninSchema_parse :: "(string \<Rightarrow> bool) \<Rightarrow> jsval \<Rightarrow> (string \<times> string) result" where
  "userSigninSchema_parse is_email data =
     (case data of
        JObj kvs \<Rightarrow>
          let email = js_prop data ''email'';
              password = js_prop data ''password'';
              issues =
                zod_string [''email'']
                  (\<lambda>s. if is_email s then [] else [Invalid_string [''email''] ''Invalid email address''])
                  email
                @ zod_string [''password'']
                  (\<lambda>s. if length s < 6
                        then [Too_small [''password''] ''Password should have at least 6 characters.'']
                        else [])
                  password
          in (case (issues, email, password) of
                ([], JStr e, JStr p) \<Rightarrow> Returns (e, p)
              | _ \<Rightarrow> Throws (ZodError issues))
      | _ \<Rightarrow> Throws (ZodError [Invalid_type []]))"

text \<open>The \<open>catch\<close> branch shared by the route handlers: log, then 400 with the issues
  for a validation error and 500 for anything else.\<close>

definition handler_catch :: "exn \<Rightarrow> CustomContext \<Rightarrow> event list \<Rightarrow> outcome" where
  "handler_catch error c evs =
     \<lparr>response = Some (case error of
                         ZodError errors \<Rightarrow> \<lparr>status = 400, body = Issues errors\<rparr>
                       | _ \<Rightarrow> c_json (JObj [(''message'', JStr ''Internal server error'')]) 500),
      ctx = c,
      events = evs @ [ConsoleError error]\<rparr>"

text \<open>
  \<open>POST /users/signin\<close>. \<open>findUnique url email password\<close> is the persistence layer's
  lookup of the user with that e-mail and password through the client built from
  \<open>url\<close>: the user object, \<open>null\<close>, or an exception. \<open>sign\<close> is the token library's
  function.
\<close>

definition signin ::
  "(string \<Rightarrow> bool) \<Rightarrow> (string \<Rightarrow> string \<Rightarrow> string \<Rightarrow> jsval result) \<Rightarrow>
   (jsval \<Rightarrow> string \<Rightarrow> string result) \<Rightarrow> CustomContext \<Rightarrow> outcome"
where
  "signin is_email findUnique sign c =
     (case json_body (req c) of
        Throws error \<Rightarrow> handler_catch error c []
      | Returns data \<Rightarrow>
          (case userSigninSchema_parse is_email data of
             Throws error \<Rightarrow> handler_catch error c []
           | Returns (email, password) \<Rightarrow>
               (case findUnique (DATABASE_URL (env c)) email password of
                  Throws error \<Rightarrow>
                    handler_catch error c [FindUnique (DATABASE_URL (env c)) email password]
                | Returns user \<Rightarrow>
                    if truthy user then
                      let payload = JObj [(''id'', js_prop user ''id''),
                                          (''email'', js_prop user ''email''),
                                          (''password'', js_prop user ''password'')];
                          secret = ''BLOG_SECRET''
                      in (case sign payload secret of
                            Throws error \<Rightarrow>
                              handler_catch error c
                                [FindUnique (DATABASE_URL (env c)) email password, Sign payload secret]
                          | Returns token \<Rightarrow>
                              \<lparr>response = Some (c_json (JObj [(''message'', JStr ''Sign in successful''),
                                                             (''user'', user),
                                                             (''token'', JStr token)]) 200),
                               ctx = c,
                               events = [FindUnique (DATABASE_URL (env c)) email password,
                                         Sign payload secret]\<rparr>)
                    else
                      \<lparr>response = Some (c_json (JObj [(''message'', JStr ''Invalid email or password'')]) 400),
                       ctx = c,
                       events = [FindUnique (DATABASE_URL (env c)) email password]\<rparr>)))"

text \<open>\<open>c.get('user')?.id\<close>, as the protected handlers read the caller's identity.\<close>

definition userId :: "CustomContext \<Rightarrow> jsval" where
  "userId c = (case c_get c ''user'' of
                 JUndefined \<Rightarrow> JUndefined
               | JNull \<Rightarrow> JUndefined
               | user \<Rightarrow> js_prop user ''id'')"

section \<open>The token codec\<close>

text \<open>
  Modelled from the spec: the token codec \<open>sign\<close> and \<open>verify\<close>, which the repository
  imports from its JWT library and whose code is not part of the sources. The spec
  (sections 3, 4.1 and 8) says: a token is a string encoding the claim plus a signature
  under the secret; a string that is not three dot-separated segments cannot be parsed;
  \<open>sign\<close> fails only on malformed input; \<open>verify\<close> recomputes the signature over the claim
  with the secret, fails with \<open>InvalidSignature\<close> on mismatch and with \<open>Malformed\<close> when the
  token cannot be parsed, and checks no expiry, issuer or audience. The spec fixes
  neither the encoding of a segment nor the signature function; they are the fields of
  \<open>primitives\<close>.
\<close>

text \<open>Modelled from the spec: the two things the spec leaves open about the codec,
  the encoding of a claim as a token segment (with its inverse) and the signature of an
  encoded claim under a secret, together with the first segment of a token.\<close>

record primitives =
  header_segment :: string
  encode_claim :: "jsval \<Rightarrow> string option"
  decode_claim :: "string \<Rightarrow> jsval option"
  signature :: "string \<Rightarrow> string \<Rightarrow> string"

text \<open>Modelled from the spec: the parse of a token into its dot-separated segments
  (section 8); a string without a dot is one segment.\<close>

fun split_dots :: "string \<Rightarrow> string list" where
  "split_dots [] = [[]]"
| "split_dots (x # xs) =
     (if x = CHR ''.'' then [] # split_dots xs
      else (case split_dots xs of
              [] \<Rightarrow> [[x]]
            | s # ss \<Rightarrow> (x # s) # ss))"

text \<open>Modelled from the spec: \<open>sign(claim, secret)\<close> of section 4.1, the header
  segment, the encoded claim and the signature of the encoded claim under the secret,
  joined by dots; it fails only on a claim that cannot be encoded.\<close>

definition jwt_sign :: "primitives \<Rightarrow> jsval \<Rightarrow> string \<Rightarrow> string result" where
  "jwt_sign P claim secret =
     (case encode_claim P claim of
        None \<Rightarrow> Throws (JwtError Malformed)
      | Some p \<Rightarrow> Returns (header_segment P @ ''.'' @ p @ ''.'' @ signature P secret p))"

text \<open>Modelled from the spec: \<open>verify(token, secret)\<close> of section 4.1. A token that is
  not three segments, or whose claim segment does not decode, is \<open>Malformed\<close>; the
  signature is recomputed over the claim segment with the secret and a mismatch is
  \<open>InvalidSignature\<close>; otherwise the claim is returned. Both failures are thrown.\<close>

definition jwt_verify :: "primitives \<Rightarrow> string \<Rightarrow> string \<Rightarrow> jsval result" where
  "jwt_verify P token secret =
     (case split_dots token of
        [h, p, s] \<Rightarrow>
          (case decode_claim P p of
             None \<Rightarrow> Throws (JwtError Malformed)
           | Some claim \<Rightarrow>
               if signature P secret p = s then Returns claim
               else Throws (JwtError InvalidSignature))
      | _ \<Rightarrow> Throws (JwtError Malformed))"

section \<open>Example collaborators\<close>

text \<open>
  Concrete requests, handlers and codec primitives on which the theorems below are
  instantiated: a context with or without an \<open>Authorization\<close> header, a next handler that
  returns normally and one that throws, a \<open>verify\<close> that returns a fixed value, a one-row
  user table, and codec primitives that know two claims, \<open>{id: 1, email: "a@b.com"}\<close> and
  \<open>{}\<close>, and sign by prefixing the secret.
\<close>

definition example_context :: "string option \<Rightarrow> CustomContext" where
  "example_context authorization =
     \<lparr>req = \<lparr>headers = (case authorization of
                           None \<Rightarrow> Map.empty
                         | Some h \<Rightarrow> [''Authorization'' \<mapsto> h]),
             json_body = Returns (JObj [(''email'', JStr ''a@b.com''),
                                        (''password'', JStr ''hunter22'')])\<rparr>,
      env = \<lparr>DATABASE_URL = ''prisma://db'', DIRECT_URL = None\<rparr>,
      vars = [''requestId'' \<mapsto> JNum 7]\<rparr>"

definition next_ok :: "CustomContext \<Rightarrow> unit result \<times> CustomContext" where
  "next_ok c = (Returns (), c)"

definition next_failing :: "CustomContext \<Rightarrow> unit result \<times> CustomContext" where
  "next_failing c = (Throws (Error ''handler failed''), c)"

definition verify_returning :: "jsval \<Rightarrow> string \<Rightarrow> string \<Rightarrow> jsval result" where
  "verify_returning v token secret = Returns v"

definition example_claim :: jsval where
  "example_claim = JObj [(''id'', JNum 1), (''email'', JStr ''a@b.com'')]"

definition example_encode :: "jsval \<Rightarrow> string option" where
  "example_encode v =
     (if v = example_claim then Some ''claim1''
      else if v = JObj [] then Some ''claim0''
      else None)"

definition example_decode :: "string \<Rightarrow> jsval option" where
  "example_decode s =
     (if s = ''claim1'' then Some example_claim
      else if s = ''claim0'' then Some (JObj [])
      else None)"

definition example_signature :: "string \<Rightarrow> string \<Rightarrow> string" where
  "example_signature secret p = secret @ ''/'' @ p"

definition example_primitives :: primitives where
  "example_primitives =
     \<lparr>header_segment = ''hdr'',
      encode_claim = example_encode,
      decode_claim = example_decode,
      signature = example_signature\<rparr>"

definition example_user :: jsval where
  "example_user = JObj [(''id'', JNum 1), (''username'', JStr ''alice''),
                        (''email'', JStr ''a@b.com''), (''password'', JStr ''hunter22'')]"

definition example_findUnique :: "string \<Rightarrow> string \<Rightarrow> string \<Rightarrow> jsval result" where
  "example_findUnique url email password =
     (if email = ''a@b.com'' \<and> password = ''hunter22'' then Returns example_user
      else Returns JNull)"

definition example_is_email :: "string \<Rightarrow> bool" where
  "example_is_email s = (CHR ''@'' \<in> set s)"

definition example_sign :: "jsval \<Rightarrow> string \<Rightarrow> string result" where
  "example_sign payload secret = Returns (''token-of-user-1/'' @ secret)"

definition example_verify :: "string \<Rightarrow> string \<Rightarrow> jsval result" where
  "example_verify token secret =
     (if token = ''token-of-user-1/'' @ secret
      then Returns (JObj [(''id'', JNum 1), (''email'', JStr ''a@b.com''),
                          (''password'', JStr ''hunter22'')])
      else Throws (JwtError InvalidSignature))"








section \<open>Auxiliary facts\<close>


lemma startsWith_Bearer_nonempty: "startsWith h ''Bearer '' \<Longrightarrow> h \<noteq> []"
  by (auto simp: startsWith_def)









lemma falsy_values:
  "(\<not> truthy v) = (v = JUndefined \<or> v = JNull \<or> v = JBool False \<or> v = JNum 0 \<or> v = JStr [])"
  by (cases v) auto

lemma authMiddleware_catch:
  assumes "header (req c) ''Authorization'' = Some h"
    and "startsWith h ''Bearer ''"
    and "verify (slice h 7) ''BLOG_SECRET'' = Throws error"
  shows "authMiddleware verify next c =
           \<lparr>response = Some \<lparr>status = 400, body = Json (JObj [(''message'', JStr ''Invalid Token'')])\<rparr>,
            ctx = c,
            events = [Verify (slice h 7) ''BLOG_SECRET'', ConsoleError error]\<rparr>"
proof -
  have "h \<noteq> []" using assms(2) by (rule startsWith_Bearer_nonempty)
  with assms show ?thesis
    by (simp add: authMiddleware_def auth_catch_def c_json_def Let_def)
qed

lemma authMiddleware_paths:
  "(\<exists>token decoded log.
       verify token ''BLOG_SECRET'' = Returns decoded \<and> truthy decoded
       \<and> events (authMiddleware verify next c)
           = [Verify token ''BLOG_SECRET'', Set ''user'' decoded, Next] @ log
       \<and> (\<forall>k v. Set k v \<notin> set log) \<and> Next \<notin> set log
       \<and> ctx (authMiddleware verify next c) = snd (next (c_set c ''user'' decoded)))
   \<or> (ctx (authMiddleware verify next c) = c
       \<and> (\<forall>k v. Set k v \<notin> set (events (authMiddleware verify next c)))
       \<and> Next \<notin> set (events (authMiddleware verify next c)))"
proof (cases "header (req c) ''Authorization''")
  case None
  then show ?thesis by (simp add: authMiddleware_def)
next
  case (Some h)
  show ?thesis
  proof (cases "h = [] \<or> \<not> startsWith h ''Bearer ''")
    case True
    with Some show ?thesis by (auto simp: authMiddleware_def)
  next
    case False
    show ?thesis
    proof (cases "verify (slice h 7) ''BLOG_SECRET''")
      case (Throws error)
      with Some False show ?thesis
        by (simp add: authMiddleware_def auth_catch_def Let_def)
    next
      case (Returns decoded)
      show ?thesis
      proof (cases "truthy decoded")
        case True
        obtain r c' where n: "next (c_set c ''user'' decoded) = (r, c')"
          by (cases "next (c_set c ''user'' decoded)")
        show ?thesis
        proof (cases r)
          case (Throws error)
          with Some False Returns True n
          have "events (authMiddleware verify next c)
                  = [Verify (slice h 7) ''BLOG_SECRET'', Set ''user'' decoded, Next] @ [ConsoleError error]"
            and "ctx (authMiddleware verify next c) = snd (next (c_set c ''user'' decoded))"
            by (simp_all add: authMiddleware_def auth_catch_def Let_def)
          with Returns True show ?thesis by fastforce
        next
          case (Returns u)
          with Some False \<open>verify (slice h 7) ''BLOG_SECRET'' = Returns decoded\<close> True n
          have "events (authMiddleware verify next c)
                  = [Verify (slice h 7) ''BLOG_SECRET'', Set ''user'' decoded, Next] @ []"
            and "ctx (authMiddleware verify next c) = snd (next (c_set c ''user'' decoded))"
            by (simp_all add: authMiddleware_def Let_def)
          with \<open>verify (slice h 7) ''BLOG_SECRET'' = Returns decoded\<close> True show ?thesis by fastforce
        qed
      next
        case False
        with Some \<open>\<not> (h = [] \<or> \<not> startsWith h ''Bearer '')\<close> Returns show ?thesis
          by (simp add: authMiddleware_def Let_def)
      qed
    qed
  qed
qed







section \<open>The claims\<close>

text \<open>
  Claim C1. A request whose \<open>Authorization\<close> header is absent, or present without the
  prefix \<open>Bearer\<close> followed by a space, is answered with status 401 and the JSON body
  \<open>{message: "Access Denied. No token provided."}\<close>. The trace is empty: \<open>verify\<close> is
  not called and the next handler is not invoked; the outcome does not depend on either.
\<close>

theorem authMiddleware_rejects_without_bearer:
  assumes "header (req c) ''Authorization'' = None \<or>
           (\<exists>h. header (req c) ''Authorization'' = Some h \<and> \<not> startsWith h ''Bearer '')"
  shows "authMiddleware verify next c =
           \<lparr>response = Some \<lparr>status = 401,
                             body = Json (JObj [(''message'', JStr ''Access Denied. No token provided.'')])\<rparr>,
            ctx = c, events = []\<rparr>
         \<and> (\<forall>token secret. Verify token secret \<notin> set (events (authMiddleware verify next c)))
         \<and> Next \<notin> set (events (authMiddleware verify next c))"
  using assms by (auto simp: authMiddleware_def c_json_def)

theorem authMiddleware_rejects_without_bearer_witness:
  "header (req (example_context None)) ''Authorization'' = None
   \<and> header (req (example_context (Some ''Basic abc''))) ''Authorization'' = Some ''Basic abc''
   \<and> \<not> startsWith ''Basic abc'' ''Bearer ''
   \<and> response (authMiddleware (verify_returning example_claim) next_ok (example_context None))
       = Some \<lparr>status = 401,
               body = Json (JObj [(''message'', JStr ''Access Denied. No token provided.'')])\<rparr>
   \<and> events (authMiddleware (verify_returning example_claim) next_ok (example_context None)) = []
   \<and> response (authMiddleware (verify_returning example_claim) next_ok (example_context (Some ''Basic abc'')))
       = Some \<lparr>status = 401,
               body = Json (JObj [(''message'', JStr ''Access Denied. No token provided.'')])\<rparr>
   \<and> events (authMiddleware (verify_returning example_claim) next_ok (example_context (Some ''Basic abc''))) = []"
proof -
  have a: "header (req (example_context None)) ''Authorization'' = None"
    by (simp add: example_context_def header_def)
  have b: "header (req (example_context (Some ''Basic abc''))) ''Authorization'' = Some ''Basic abc''"
    by (simp add: example_context_def header_def)
  have c: "\<not> startsWith ''Basic abc'' ''Bearer ''"
    by (simp add: startsWith_def)
  show ?thesis
    using a b c
      authMiddleware_rejects_without_bearer [of "example_context None" "verify_returning example_claim" next_ok]
      authMiddleware_rejects_without_bearer [of "example_context (Some ''Basic abc'')" "verify_returning example_claim" next_ok]
    by simp
qed

text \<open>
  Claim C2. When the header carries a token on which \<open>verify\<close> returns a truthy claim,
  the middleware calls \<open>verify\<close>, sets the context variable \<open>user\<close> to exactly that
  claim and then invokes the next handler on the context so extended, where reading
  \<open>user\<close> gives the claim back. When the next handler returns normally the middleware
  returns no response of its own.
\<close>

theorem authMiddleware_attaches_user:
  assumes "header (req c) ''Authorization'' = Some h"
    and "startsWith h ''Bearer ''"
    and "verify (slice h 7) ''BLOG_SECRET'' = Returns decoded"
    and "truthy decoded"
  shows "take 3 (events (authMiddleware verify next c))
           = [Verify (slice h 7) ''BLOG_SECRET'', Set ''user'' decoded, Next]
         \<and> ctx (authMiddleware verify next c) = snd (next (c_set c ''user'' decoded))
         \<and> vars (c_set c ''user'' decoded) ''user'' = Some decoded
         \<and> c_get (c_set c ''user'' decoded) ''user'' = decoded
         \<and> (\<forall>c'. next (c_set c ''user'' decoded) = (Returns (), c') \<longrightarrow>
               authMiddleware verify next c =
                 \<lparr>response = None, ctx = c',
                  events = [Verify (slice h 7) ''BLOG_SECRET'', Set ''user'' decoded, Next]\<rparr>)"
proof -
  have "h \<noteq> []" using assms(2) by (rule startsWith_Bearer_nonempty)
  with assms show ?thesis
    by (auto simp: authMiddleware_def auth_catch_def c_set_def c_get_def Let_def
        split: prod.splits result.splits)
qed

theorem authMiddleware_attaches_user_witness:
  "jwt_sign example_primitives example_claim ''BLOG_SECRET'' = Returns ''hdr.claim1.BLOG_SECRET/claim1''
   \<and> jwt_verify example_primitives ''hdr.claim1.BLOG_SECRET/claim1'' ''BLOG_SECRET'' = Returns example_claim
   \<and> truthy example_claim
   \<and> authMiddleware (jwt_verify example_primitives) next_ok
        (example_context (Some ''Bearer hdr.claim1.BLOG_SECRET/claim1''))
       = \<lparr>response = None,
          ctx = c_set (example_context (Some ''Bearer hdr.claim1.BLOG_SECRET/claim1'')) ''user'' example_claim,
          events = [Verify ''hdr.claim1.BLOG_SECRET/claim1'' ''BLOG_SECRET'', Set ''user'' example_claim, Next]\<rparr>
   \<and> userId (c_set (example_context (Some ''Bearer hdr.claim1.BLOG_SECRET/claim1'')) ''user'' example_claim)
       = JNum 1"
proof -
  let ?h = "''Bearer hdr.claim1.BLOG_SECRET/claim1''"
  let ?c = "example_context (Some ?h)"
  have s: "jwt_sign example_primitives example_claim ''BLOG_SECRET'' = Returns ''hdr.claim1.BLOG_SECRET/claim1''"
    by (simp add: jwt_sign_def example_primitives_def example_encode_def example_signature_def)
  have h: "header (req ?c) ''Authorization'' = Some ?h"
    by (simp add: example_context_def header_def)
  have p: "startsWith ?h ''Bearer ''"
    by (simp add: startsWith_def)
  have v: "jwt_verify example_primitives (slice ?h 7) ''BLOG_SECRET'' = Returns example_claim"
    by (simp add: jwt_verify_def slice_def example_primitives_def example_decode_def
        example_signature_def)
  have t: "truthy example_claim"
    by (simp add: example_claim_def)
  have u: "userId (c_set ?c ''user'' example_claim) = JNum 1"
    by (simp add: userId_def c_get_def c_set_def example_claim_def)
  have n: "next_ok (c_set ?c ''user'' example_claim) = (Returns (), c_set ?c ''user'' example_claim)"
    by (simp add: next_ok_def)
  from authMiddleware_attaches_user [of _ _ "jwt_verify example_primitives" _ next_ok, OF h p v t] n
  have "authMiddleware (jwt_verify example_primitives) next_ok ?c =
          \<lparr>response = None, ctx = c_set ?c ''user'' example_claim,
           events = [Verify (slice ?h 7) ''BLOG_SECRET'', Set ''user'' example_claim, Next]\<rparr>"
    by blast
  with s v t u show ?thesis by (simp add: slice_def)
qed

text \<open>
  Claim C3. When \<open>verify\<close> throws, the middleware catches the exception, writes it to
  the server log, answers with status 400 and the JSON body
  \<open>{message: "Invalid Token"}\<close>, leaves the context as it was and does not invoke the
  next handler.
\<close>

theorem authMiddleware_verify_throws:
  assumes "header (req c) ''Authorization'' = Some h"
    and "startsWith h ''Bearer ''"
    and "verify (slice h 7) ''BLOG_SECRET'' = Throws error"
  shows "authMiddleware verify next c =
           \<lparr>response = Some \<lparr>status = 400, body = Json (JObj [(''message'', JStr ''Invalid Token'')])\<rparr>,
            ctx = c,
            events = [Verify (slice h 7) ''BLOG_SECRET'', ConsoleError error]\<rparr>
         \<and> Next \<notin> set (events (authMiddleware verify next c))"
proof -
  have "h \<noteq> []" using assms(2) by (rule startsWith_Bearer_nonempty)
  with assms show ?thesis
    by (simp add: authMiddleware_def auth_catch_def c_json_def Let_def)
qed

theorem authMiddleware_verify_throws_witness:
  "jwt_verify example_primitives ''not-a-token'' ''BLOG_SECRET'' = Throws (JwtError Malformed)
   \<and> authMiddleware (jwt_verify example_primitives) next_ok (example_context (Some ''Bearer not-a-token''))
       = \<lparr>response = Some \<lparr>status = 400, body = Json (JObj [(''message'', JStr ''Invalid Token'')])\<rparr>,
          ctx = example_context (Some ''Bearer not-a-token''),
          events = [Verify ''not-a-token'' ''BLOG_SECRET'', ConsoleError (JwtError Malformed)]\<rparr>"
proof -
  let ?h = "''Bearer not-a-token''"
  let ?c = "example_context (Some ?h)"
  have h: "header (req ?c) ''Authorization'' = Some ?h"
    by (simp add: example_context_def header_def)
  have p: "startsWith ?h ''Bearer ''"
    by (simp add: startsWith_def)
  have v: "jwt_verify example_primitives (slice ?h 7) ''BLOG_SECRET'' = Throws (JwtError Malformed)"
    by (simp add: jwt_verify_def slice_def)
  from authMiddleware_verify_throws [of _ _ "jwt_verify example_primitives" _ next_ok, OF h p v] v show ?thesis
    by (simp add: slice_def)
qed







text \<open>
  Claim C6 speaks of a falsy or empty result. The empty claim \<open>{}\<close> is an empty result
  and is truthy: when \<open>verify\<close> returns it, the middleware takes the success path, sets
  \<open>user\<close> and invokes the next handler.
\<close>

theorem authMiddleware_empty_claim_passes:
  "verify_returning (JObj []) ''tok'' ''BLOG_SECRET'' = Returns (JObj [])
   \<and> response (authMiddleware (verify_returning (JObj [])) next_ok
                 (example_context (Some ''Bearer tok''))) = None
   \<and> events (authMiddleware (verify_returning (JObj [])) next_ok
               (example_context (Some ''Bearer tok'')))
       = [Verify ''tok'' ''BLOG_SECRET'', Set ''user'' (JObj []), Next]"
  by (simp add: authMiddleware_def verify_returning_def next_ok_def example_context_def
      header_def startsWith_def slice_def)

text \<open>
  Claim C6, amended. When \<open>verify\<close> returns without throwing and its result is falsy
  (\<open>undefined\<close>, \<open>null\<close>, \<open>false\<close>, \<open>0\<close> or the empty string), the middleware
  answers with status 401 and the plain-text body \<open>You are an unauthorized user, sorry\<close>,
  leaves the context as it was and does not invoke the next handler.
\<close>

theorem authMiddleware_falsy_result:
  assumes "header (req c) ''Authorization'' = Some h"
    and "startsWith h ''Bearer ''"
    and "verify (slice h 7) ''BLOG_SECRET'' = Returns decoded"
    and "\<not> truthy decoded"
  shows "authMiddleware verify next c =
           \<lparr>response = Some \<lparr>status = 401, body = Text ''You are an unauthorized user, sorry''\<rparr>,
            ctx = c,
            events = [Verify (slice h 7) ''BLOG_SECRET'']\<rparr>
         \<and> Next \<notin> set (events (authMiddleware verify next c))
         \<and> (decoded = JUndefined \<or> decoded = JNull \<or> decoded = JBool False
              \<or> decoded = JNum 0 \<or> decoded = JStr [])"
proof -
  have "h \<noteq> []" using assms(2) by (rule startsWith_Bearer_nonempty)
  with assms have "authMiddleware verify next c =
           \<lparr>response = Some \<lparr>status = 401, body = Text ''You are an unauthorized user, sorry''\<rparr>,
            ctx = c,
            events = [Verify (slice h 7) ''BLOG_SECRET'']\<rparr>"
    by (simp add: authMiddleware_def c_body_def Let_def)
  moreover have "decoded = JUndefined \<or> decoded = JNull \<or> decoded = JBool False
              \<or> decoded = JNum 0 \<or> decoded = JStr []"
    using assms(4) by (simp only: falsy_values)
  ultimately show ?thesis by simp
qed

theorem authMiddleware_falsy_result_witness:
  "\<not> truthy JNull
   \<and> authMiddleware (verify_returning JNull) next_ok (example_context (Some ''Bearer tok''))
       = \<lparr>response = Some \<lparr>status = 401, body = Text ''You are an unauthorized user, sorry''\<rparr>,
          ctx = example_context (Some ''Bearer tok''),
          events = [Verify ''tok'' ''BLOG_SECRET'']\<rparr>"
proof -
  let ?h = "''Bearer tok''"
  have h: "header (req (example_context (Some ?h))) ''Authorization'' = Some ?h"
    by (simp add: example_context_def header_def)
  have p: "startsWith ?h ''Bearer ''"
    by (simp add: startsWith_def)
  have v: "verify_returning JNull (slice ?h 7) ''BLOG_SECRET'' = Returns JNull"
    by (simp add: verify_returning_def)
  have t: "\<not> truthy JNull" by simp
  from authMiddleware_falsy_result [of _ _ "verify_returning JNull" _ next_ok, OF h p v t] show ?thesis
    by (simp add: slice_def)
qed

text \<open>
  Claim C7. Frame property of the middleware. Either it is on its success path: \<open>verify\<close>
  returned a truthy claim, the one variable set is \<open>user\<close>, and the next handler
  receives the context with \<open>user\<close> bound to the claim, whose request, environment
  bindings and every other variable are those of the incoming context. Or the context
  afterwards is the incoming context, no variable is set and the next handler is not
  invoked. The line written with \<open>console.error\<close> on the exception path is output,
  recorded in the trace; it is no part of the context.
\<close>

theorem authMiddleware_frame:
  "((\<exists>token decoded log.
       verify token ''BLOG_SECRET'' = Returns decoded \<and> truthy decoded
       \<and> events (authMiddleware verify next c)
           = [Verify token ''BLOG_SECRET'', Set ''user'' decoded, Next] @ log
       \<and> (\<forall>k v. Set k v \<notin> set log) \<and> Next \<notin> set log
       \<and> ctx (authMiddleware verify next c) = snd (next (c_set c ''user'' decoded)))
    \<or> (ctx (authMiddleware verify next c) = c
       \<and> (\<forall>k v. Set k v \<notin> set (events (authMiddleware verify next c)))
       \<and> Next \<notin> set (events (authMiddleware verify next c))))
   \<and> (\<forall>decoded.
         req (c_set c ''user'' decoded) = req c
         \<and> env (c_set c ''user'' decoded) = env c
         \<and> vars (c_set c ''user'' decoded) ''user'' = Some decoded
         \<and> (\<forall>k. k \<noteq> ''user'' \<longrightarrow> vars (c_set c ''user'' decoded) k = vars c k))"
  using authMiddleware_paths [of verify "next" c] by (simp add: c_set_def)

theorem authMiddleware_frame_witness:
  "ctx (authMiddleware (jwt_verify example_primitives) next_ok (example_context None))
     = example_context None
   \<and> ctx (authMiddleware (jwt_verify example_primitives) next_ok
            (example_context (Some ''Bearer not-a-token'')))
     = example_context (Some ''Bearer not-a-token'')
   \<and> ctx (authMiddleware (jwt_verify example_primitives) next_ok
            (example_context (Some ''Bearer hdr.claim1.BLOG_SECRET/claim1'')))
     = c_set (example_context (Some ''Bearer hdr.claim1.BLOG_SECRET/claim1'')) ''user'' example_claim
   \<and> vars (c_set (example_context (Some ''Bearer hdr.claim1.BLOG_SECRET/claim1'')) ''user'' example_claim)
        ''requestId'' = Some (JNum 7)
   \<and> vars (example_context (Some ''Bearer hdr.claim1.BLOG_SECRET/claim1'')) ''user'' = None"
proof -
  let ?v = "jwt_verify example_primitives"
  let ?c1 = "example_context None"
  let ?c2 = "example_context (Some ''Bearer not-a-token'')"
  let ?c3 = "example_context (Some ''Bearer hdr.claim1.BLOG_SECRET/claim1'')"
  have e1: "events (authMiddleware ?v next_ok ?c1) = []"
    by (simp add: authMiddleware_def example_context_def header_def)
  have e2: "events (authMiddleware ?v next_ok ?c2)
              = [Verify ''not-a-token'' ''BLOG_SECRET'', ConsoleError (JwtError Malformed)]"
    by (simp add: authMiddleware_def auth_catch_def example_context_def header_def
        startsWith_def slice_def jwt_verify_def Let_def)
  have e3: "events (authMiddleware ?v next_ok ?c3)
              = [Verify ''hdr.claim1.BLOG_SECRET/claim1'' ''BLOG_SECRET'', Set ''user'' example_claim, Next]"
    by (simp add: authMiddleware_def example_context_def header_def startsWith_def slice_def
        jwt_verify_def example_primitives_def example_decode_def example_signature_def
        next_ok_def c_set_def Let_def example_claim_def)
  have r1: "ctx (authMiddleware ?v next_ok ?c1) = ?c1"
    using authMiddleware_frame [of ?v next_ok ?c1] e1 by auto
  have r2: "ctx (authMiddleware ?v next_ok ?c2) = ?c2"
    using authMiddleware_frame [of ?v next_ok ?c2] e2 by auto
  have r3: "ctx (authMiddleware ?v next_ok ?c3) = c_set ?c3 ''user'' example_claim"
    using authMiddleware_frame [of ?v next_ok ?c3] e3 by (auto simp: next_ok_def)
  have r4: "vars (c_set ?c3 ''user'' example_claim) ''requestId'' = Some (JNum 7)"
    using authMiddleware_frame [of ?v next_ok ?c3] by (simp add: example_context_def)
  have r5: "vars ?c3 ''user'' = None"
    by (simp add: example_context_def)
  from r1 r2 r3 r4 r5 show ?thesis by simp
qed

text \<open>
  Claim C8. The secret is the literal \<open>BLOG_SECRET\<close> in both places, whatever the
  environment bindings \<open>e\<close> of the request. Once a user is found, what the sign-in handler
  returns is decided by \<open>sign\<close> of the payload under \<open>BLOG_SECRET\<close>: its token is the token
  in the response, its exception the error response. Once the header carries a token,
  what the middleware does is decided by \<open>verify\<close> of the token under \<open>BLOG_SECRET\<close>: 400
  when it throws, 401 when it returns a falsy value, \<open>user\<close> set and the next handler
  invoked when it returns a truthy one. Both handlers pass that string in every call and
  depend on the token library only through its behaviour at that secret.
\<close>

theorem shared_secret_literal:
  "(\<forall>token secret.
      Verify token secret \<in> set (events (authMiddleware verify next (c\<lparr>env := e\<rparr>)))
        \<longrightarrow> secret = ''BLOG_SECRET'')
   \<and> (\<forall>payload secret.
        Sign payload secret \<in> set (events (signin is_email findUnique sign (c\<lparr>env := e\<rparr>)))
          \<longrightarrow> secret = ''BLOG_SECRET'')
   \<and> ((\<forall>token. verify' token ''BLOG_SECRET'' = verify token ''BLOG_SECRET'')
        \<longrightarrow> authMiddleware verify' next c = authMiddleware verify next c)
   \<and> ((\<forall>payload. sign' payload ''BLOG_SECRET'' = sign payload ''BLOG_SECRET'')
        \<longrightarrow> signin is_email findUnique sign' c = signin is_email findUnique sign c)
   \<and> (\<forall>data email password user.
         json_body (req c) = Returns data
         \<and> userSigninSchema_parse is_email data = Returns (email, password)
         \<and> findUnique (DATABASE_URL e) email password = Returns user
         \<and> truthy user
         \<longrightarrow>
           (\<forall>token.
              sign (JObj [(''id'', js_prop user ''id''),
                          (''email'', js_prop user ''email''),
                          (''password'', js_prop user ''password'')]) ''BLOG_SECRET''
                = Returns token
              \<longrightarrow> signin is_email findUnique sign (c\<lparr>env := e\<rparr>)
                    = \<lparr>response = Some \<lparr>status = 200,
                                        body = Json (JObj [(''message'', JStr ''Sign in successful''),
                                                           (''user'', user),
                                                           (''token'', JStr token)])\<rparr>,
                       ctx = c\<lparr>env := e\<rparr>,
                       events = [FindUnique (DATABASE_URL e) email password,
                                 Sign (JObj [(''id'', js_prop user ''id''),
                                             (''email'', js_prop user ''email''),
                                             (''password'', js_prop user ''password'')])
                                   ''BLOG_SECRET'']\<rparr>)
           \<and> (\<forall>error.
                sign (JObj [(''id'', js_prop user ''id''),
                            (''email'', js_prop user ''email''),
                            (''password'', js_prop user ''password'')]) ''BLOG_SECRET''
                  = Throws error
                \<longrightarrow> signin is_email findUnique sign (c\<lparr>env := e\<rparr>)
                      = handler_catch error (c\<lparr>env := e\<rparr>)
                          [FindUnique (DATABASE_URL e) email password,
                           Sign (JObj [(''id'', js_prop user ''id''),
                                       (''email'', js_prop user ''email''),
                                       (''password'', js_prop user ''password'')])
                             ''BLOG_SECRET'']))
   \<and> (\<forall>h. header (req c) ''Authorization'' = Some h \<and> startsWith h ''Bearer ''
         \<longrightarrow>
           (\<forall>error.
              verify (slice h 7) ''BLOG_SECRET'' = Throws error
              \<longrightarrow> authMiddleware verify next (c\<lparr>env := e\<rparr>)
                    = \<lparr>response = Some \<lparr>status = 400,
                                        body = Json (JObj [(''message'', JStr ''Invalid Token'')])\<rparr>,
                       ctx = c\<lparr>env := e\<rparr>,
                       events = [Verify (slice h 7) ''BLOG_SECRET'', ConsoleError error]\<rparr>)
           \<and> (\<forall>decoded.
                verify (slice h 7) ''BLOG_SECRET'' = Returns decoded \<and> \<not> truthy decoded
                \<longrightarrow> authMiddleware verify next (c\<lparr>env := e\<rparr>)
                      = \<lparr>response = Some \<lparr>status = 401,
                                          body = Text ''You are an unauthorized user, sorry''\<rparr>,
                         ctx = c\<lparr>env := e\<rparr>,
                         events = [Verify (slice h 7) ''BLOG_SECRET'']\<rparr>)
           \<and> (\<forall>decoded.
                verify (slice h 7) ''BLOG_SECRET'' = Returns decoded \<and> truthy decoded
                \<longrightarrow> ctx (authMiddleware verify next (c\<lparr>env := e\<rparr>))
                      = snd (next (c_set (c\<lparr>env := e\<rparr>) ''user'' decoded))
                    \<and> take 3 (events (authMiddleware verify next (c\<lparr>env := e\<rparr>)))
                      = [Verify (slice h 7) ''BLOG_SECRET'', Set ''user'' decoded, Next]))"
proof -
  have v: "secret = ''BLOG_SECRET''"
    if "Verify token secret \<in> set (events (authMiddleware verify next (c\<lparr>env := e\<rparr>)))"
    for token secret
    using that
    by (auto simp: authMiddleware_def auth_catch_def Let_def
        split: option.splits if_splits result.splits prod.splits)
  have s: "secret = ''BLOG_SECRET''"
    if "Sign payload secret \<in> set (events (signin is_email findUnique sign (c\<lparr>env := e\<rparr>)))"
    for payload secret
    using that
    by (auto simp: signin_def handler_catch_def Let_def
        split: result.splits prod.splits if_splits)
  have v': "authMiddleware verify' next c = authMiddleware verify next c"
    if "\<forall>token. verify' token ''BLOG_SECRET'' = verify token ''BLOG_SECRET''"
    using that by (simp add: authMiddleware_def Let_def split: option.splits)
  have s': "signin is_email findUnique sign' c = signin is_email findUnique sign c"
    if "\<forall>payload. sign' payload ''BLOG_SECRET'' = sign payload ''BLOG_SECRET''"
    using that by (simp add: signin_def Let_def split: result.splits prod.splits)
  have i: "signin is_email findUnique sign (c\<lparr>env := e\<rparr>)
             = \<lparr>response = Some \<lparr>status = 200,
                                 body = Json (JObj [(''message'', JStr ''Sign in successful''),
                                                    (''user'', user),
                                                    (''token'', JStr token)])\<rparr>,
                ctx = c\<lparr>env := e\<rparr>,
                events = [FindUnique (DATABASE_URL e) email password,
                          Sign (JObj [(''id'', js_prop user ''id''),
                                      (''email'', js_prop user ''email''),
                                      (''password'', js_prop user ''password'')])
                            ''BLOG_SECRET'']\<rparr>"
    if "json_body (req c) = Returns data"
      and "userSigninSchema_parse is_email data = Returns (email, password)"
      and "findUnique (DATABASE_URL e) email password = Returns user"
      and "truthy user"
      and "sign (JObj [(''id'', js_prop user ''id''),
                       (''email'', js_prop user ''email''),
                       (''password'', js_prop user ''password'')]) ''BLOG_SECRET''
             = Returns token"
    for data email password user token
    using that by (simp add: signin_def Let_def c_json_def)
  have t: "signin is_email findUnique sign (c\<lparr>env := e\<rparr>)
             = handler_catch error (c\<lparr>env := e\<rparr>)
                 [FindUnique (DATABASE_URL e) email password,
                  Sign (JObj [(''id'', js_prop user ''id''),
                              (''email'', js_prop user ''email''),
                              (''password'', js_prop user ''password'')])
                    ''BLOG_SECRET'']"
    if "json_body (req c) = Returns data"
      and "userSigninSchema_parse is_email data = Returns (email, password)"
      and "findUnique (DATABASE_URL e) email password = Returns user"
      and "truthy user"
      and "sign (JObj [(''id'', js_prop user ''id''),
                       (''email'', js_prop user ''email''),
                       (''password'', js_prop user ''password'')]) ''BLOG_SECRET''
             = Throws error"
    for data email password user error
    using that by (simp add: signin_def Let_def)
  have g1: "authMiddleware verify next (c\<lparr>env := e\<rparr>)
              = \<lparr>response = Some \<lparr>status = 400,
                                  body = Json (JObj [(''message'', JStr ''Invalid Token'')])\<rparr>,
                 ctx = c\<lparr>env := e\<rparr>,
                 events = [Verify (slice h 7) ''BLOG_SECRET'', ConsoleError error]\<rparr>"
    if "header (req c) ''Authorization'' = Some h" and "startsWith h ''Bearer ''"
      and "verify (slice h 7) ''BLOG_SECRET'' = Throws error"
    for h error
    using that authMiddleware_catch [of "c\<lparr>env := e\<rparr>" h verify error "next"]
    by simp
  have g2: "authMiddleware verify next (c\<lparr>env := e\<rparr>)
              = \<lparr>response = Some \<lparr>status = 401,
                                  body = Text ''You are an unauthorized user, sorry''\<rparr>,
                 ctx = c\<lparr>env := e\<rparr>,
                 events = [Verify (slice h 7) ''BLOG_SECRET'']\<rparr>"
    if "header (req c) ''Authorization'' = Some h" and "startsWith h ''Bearer ''"
      and "verify (slice h 7) ''BLOG_SECRET'' = Returns decoded" and "\<not> truthy decoded"
    for h decoded
    using that startsWith_Bearer_nonempty [of h]
    by (simp add: authMiddleware_def c_body_def Let_def)
  have g3: "ctx (authMiddleware verify next (c\<lparr>env := e\<rparr>))
              = snd (next (c_set (c\<lparr>env := e\<rparr>) ''user'' decoded))
            \<and> take 3 (events (authMiddleware verify next (c\<lparr>env := e\<rparr>)))
              = [Verify (slice h 7) ''BLOG_SECRET'', Set ''user'' decoded, Next]"
    if "header (req c) ''Authorization'' = Some h" and "startsWith h ''Bearer ''"
      and "verify (slice h 7) ''BLOG_SECRET'' = Returns decoded" and "truthy decoded"
    for h decoded
    using that startsWith_Bearer_nonempty [of h]
    by (auto simp: authMiddleware_def auth_catch_def Let_def
        split: prod.splits result.splits)
  from v s v' s' i t g1 g2 g3 show ?thesis by blast
qed

theorem shared_secret_literal_witness:
  "example_sign (JObj [(''id'', JNum 1), (''email'', JStr ''a@b.com''),
                       (''password'', JStr ''hunter22'')]) ''BLOG_SECRET''
     = Returns ''token-of-user-1/BLOG_SECRET''
   \<and> signin example_is_email example_findUnique example_sign
        ((example_context None)
           \<lparr>env := \<lparr>DATABASE_URL = ''prisma://other'', DIRECT_URL = Some ''direct''\<rparr>\<rparr>)
     = \<lparr>response = Some \<lparr>status = 200,
                         body = Json (JObj [(''message'', JStr ''Sign in successful''),
                                            (''user'', example_user),
                                            (''token'', JStr ''token-of-user-1/BLOG_SECRET'')])\<rparr>,
        ctx = (example_context None)
                \<lparr>env := \<lparr>DATABASE_URL = ''prisma://other'', DIRECT_URL = Some ''direct''\<rparr>\<rparr>,
        events = [FindUnique ''prisma://other'' ''a@b.com'' ''hunter22'',
                  Sign (JObj [(''id'', JNum 1), (''email'', JStr ''a@b.com''),
                              (''password'', JStr ''hunter22'')]) ''BLOG_SECRET'']\<rparr>
   \<and> example_verify ''token-of-user-1/BLOG_SECRET'' ''BLOG_SECRET''
     = Returns (JObj [(''id'', JNum 1), (''email'', JStr ''a@b.com''),
                      (''password'', JStr ''hunter22'')])
   \<and> ctx (authMiddleware example_verify next_ok
            ((example_context (Some ''Bearer token-of-user-1/BLOG_SECRET''))
               \<lparr>env := \<lparr>DATABASE_URL = ''prisma://other'', DIRECT_URL = Some ''direct''\<rparr>\<rparr>))
     = c_set ((example_context (Some ''Bearer token-of-user-1/BLOG_SECRET''))
                \<lparr>env := \<lparr>DATABASE_URL = ''prisma://other'', DIRECT_URL = Some ''direct''\<rparr>\<rparr>)
         ''user'' (JObj [(''id'', JNum 1), (''email'', JStr ''a@b.com''),
                         (''password'', JStr ''hunter22'')])
   \<and> example_verify ''token-of-user-1/OTHER_SECRET'' ''BLOG_SECRET''
     = Throws (JwtError InvalidSignature)
   \<and> authMiddleware example_verify next_ok
        ((example_context (Some ''Bearer token-of-user-1/OTHER_SECRET''))
           \<lparr>env := \<lparr>DATABASE_URL = ''prisma://other'', DIRECT_URL = Some ''direct''\<rparr>\<rparr>)
     = \<lparr>response = Some \<lparr>status = 400,
                         body = Json (JObj [(''message'', JStr ''Invalid Token'')])\<rparr>,
        ctx = (example_context (Some ''Bearer token-of-user-1/OTHER_SECRET''))
                \<lparr>env := \<lparr>DATABASE_URL = ''prisma://other'', DIRECT_URL = Some ''direct''\<rparr>\<rparr>,
        events = [Verify ''token-of-user-1/OTHER_SECRET'' ''BLOG_SECRET'',
                  ConsoleError (JwtError InvalidSignature)]\<rparr>"
proof -
  let ?e = "\<lparr>DATABASE_URL = ''prisma://other'', DIRECT_URL = Some ''direct''\<rparr>"
  let ?payload = "JObj [(''id'', JNum 1), (''email'', JStr ''a@b.com''),
                        (''password'', JStr ''hunter22'')]"
  let ?good = "''Bearer token-of-user-1/BLOG_SECRET''"
  let ?bad = "''Bearer token-of-user-1/OTHER_SECRET''"
  have j: "json_body (req (example_context None))
             = Returns (JObj [(''email'', JStr ''a@b.com''), (''password'', JStr ''hunter22'')])"
    by (simp add: example_context_def)
  have p: "userSigninSchema_parse example_is_email
             (JObj [(''email'', JStr ''a@b.com''), (''password'', JStr ''hunter22'')])
             = Returns (''a@b.com'', ''hunter22'')"
    by (simp add: userSigninSchema_parse_def example_is_email_def Let_def)
  have f: "example_findUnique (DATABASE_URL ?e) ''a@b.com'' ''hunter22'' = Returns example_user"
    by (simp add: example_findUnique_def)
  have u: "truthy example_user"
    by (simp add: example_user_def)
  have pl: "JObj [(''id'', js_prop example_user ''id''),
                  (''email'', js_prop example_user ''email''),
                  (''password'', js_prop example_user ''password'')] = ?payload"
    by (simp add: example_user_def)
  have sg: "example_sign ?payload ''BLOG_SECRET'' = Returns ''token-of-user-1/BLOG_SECRET''"
    by (simp add: example_sign_def)
  have hg: "header (req (example_context (Some ?good))) ''Authorization'' = Some ?good"
    by (simp add: example_context_def header_def)
  have hb: "header (req (example_context (Some ?bad))) ''Authorization'' = Some ?bad"
    by (simp add: example_context_def header_def)
  have sw: "startsWith ?good ''Bearer ''" "startsWith ?bad ''Bearer ''"
    by (simp_all add: startsWith_def)
  have vg: "example_verify (slice ?good 7) ''BLOG_SECRET'' = Returns ?payload"
    by (simp add: example_verify_def slice_def)
  have vb: "example_verify (slice ?bad 7) ''BLOG_SECRET'' = Throws (JwtError InvalidSignature)"
    by (simp add: example_verify_def slice_def)
  have tp: "truthy ?payload" by simp
  have sg': "example_sign (JObj [(''id'', js_prop example_user ''id''),
                                 (''email'', js_prop example_user ''email''),
                                 (''password'', js_prop example_user ''password'')]) ''BLOG_SECRET''
               = Returns ''token-of-user-1/BLOG_SECRET''"
    by (simp add: example_sign_def)
  have found: "json_body (req (example_context None))
                 = Returns (JObj [(''email'', JStr ''a@b.com''), (''password'', JStr ''hunter22'')])
               \<and> userSigninSchema_parse example_is_email
                   (JObj [(''email'', JStr ''a@b.com''), (''password'', JStr ''hunter22'')])
                   = Returns (''a@b.com'', ''hunter22'')
               \<and> example_findUnique (DATABASE_URL ?e) ''a@b.com'' ''hunter22'' = Returns example_user
               \<and> truthy example_user"
    by (intro conjI) (rule j p f u)+
  note a = shared_secret_literal [of example_verify next_ok ?e "example_context None"
      example_is_email example_findUnique example_sign example_verify example_sign,
      THEN conjunct2, THEN conjunct2, THEN conjunct2, THEN conjunct2, THEN conjunct1,
      rule_format, OF found, THEN conjunct1, rule_format, OF sg']
  note b = shared_secret_literal [of example_verify next_ok ?e "example_context (Some ?good)"
      example_is_email example_findUnique example_sign example_verify example_sign,
      THEN conjunct2, THEN conjunct2, THEN conjunct2, THEN conjunct2, THEN conjunct2,
      rule_format, OF conjI [OF hg sw(1)], THEN conjunct2, THEN conjunct2,
      rule_format, OF conjI [OF vg tp], THEN conjunct1]
  note c = shared_secret_literal [of example_verify next_ok ?e "example_context (Some ?bad)"
      example_is_email example_findUnique example_sign example_verify example_sign,
      THEN conjunct2, THEN conjunct2, THEN conjunct2, THEN conjunct2, THEN conjunct2,
      rule_format, OF conjI [OF hb sw(2)], THEN conjunct1, rule_format, OF vb]
  have r1: "signin example_is_email example_findUnique example_sign ((example_context None)\<lparr>env := ?e\<rparr>)
     = \<lparr>response = Some \<lparr>status = 200,
                         body = Json (JObj [(''message'', JStr ''Sign in successful''),
                                            (''user'', example_user),
                                            (''token'', JStr ''token-of-user-1/BLOG_SECRET'')])\<rparr>,
        ctx = (example_context None)\<lparr>env := ?e\<rparr>,
        events = [FindUnique ''prisma://other'' ''a@b.com'' ''hunter22'',
                  Sign ?payload ''BLOG_SECRET'']\<rparr>"
    using a by (simp add: pl)
  have r2: "ctx (authMiddleware example_verify next_ok ((example_context (Some ?good))\<lparr>env := ?e\<rparr>))
              = snd (next_ok (c_set ((example_context (Some ?good))\<lparr>env := ?e\<rparr>) ''user'' ?payload))"
    by (rule b)
  have r3: "authMiddleware example_verify next_ok ((example_context (Some ?bad))\<lparr>env := ?e\<rparr>)
     = \<lparr>response = Some \<lparr>status = 400,
                         body = Json (JObj [(''message'', JStr ''Invalid Token'')])\<rparr>,
        ctx = (example_context (Some ?bad))\<lparr>env := ?e\<rparr>,
        events = [Verify (slice ?bad 7) ''BLOG_SECRET'',
                  ConsoleError (JwtError InvalidSignature)]\<rparr>"
    by (rule c)
  from sg r1 vg r2 vb r3 show ?thesis
    by (simp add: slice_def next_ok_def)
qed

text \<open>
  Claim C9. Every successful sign-in (status 200) found a user, and the payload it signed
  with \<open>BLOG_SECRET\<close> holds that user's \<open>id\<close>, \<open>email\<close> and \<open>password\<close> as the persistence
  layer returned them; the token in the response is the token of that payload. Hence, on
  a protected request that carries the issued token and on which \<open>verify\<close> gives the
  signed payload back, the context the middleware hands to the next handler has \<open>user\<close>
  bound to that payload, and reading \<open>user.password\<close> there gives the user's password.
\<close>

theorem signin_payload_carries_password:
  assumes "response (signin is_email findUnique sign c) = Some r"
    and "status r = 200"
  shows "\<exists>email password user token.
           findUnique (DATABASE_URL (env c)) email password = Returns user
           \<and> truthy user
           \<and> sign (JObj [(''id'', js_prop user ''id''),
                          (''email'', js_prop user ''email''),
                          (''password'', js_prop user ''password'')]) ''BLOG_SECRET''
               = Returns token
           \<and> events (signin is_email findUnique sign c)
               = [FindUnique (DATABASE_URL (env c)) email password,
                  Sign (JObj [(''id'', js_prop user ''id''),
                              (''email'', js_prop user ''email''),
                              (''password'', js_prop user ''password'')]) ''BLOG_SECRET'']
           \<and> body r = Json (JObj [(''message'', JStr ''Sign in successful''),
                                   (''user'', user), (''token'', JStr token)])
           \<and> js_prop (JObj [(''id'', js_prop user ''id''),
                             (''email'', js_prop user ''email''),
                             (''password'', js_prop user ''password'')]) ''password''
               = js_prop user ''password''
           \<and> (\<forall>verify next c'.
                 header (req c') ''Authorization'' = Some (''Bearer '' @ token)
                 \<and> verify token ''BLOG_SECRET''
                     = Returns (JObj [(''id'', js_prop user ''id''),
                                      (''email'', js_prop user ''email''),
                                      (''password'', js_prop user ''password'')])
                 \<longrightarrow>
                   ctx (authMiddleware verify next c')
                     = snd (next (c_set c' ''user''
                                   (JObj [(''id'', js_prop user ''id''),
                                          (''email'', js_prop user ''email''),
                                          (''password'', js_prop user ''password'')])))
                   \<and> c_get (c_set c' ''user''
                               (JObj [(''id'', js_prop user ''id''),
                                      (''email'', js_prop user ''email''),
                                      (''password'', js_prop user ''password'')])) ''user''
                       = JObj [(''id'', js_prop user ''id''),
                               (''email'', js_prop user ''email''),
                               (''password'', js_prop user ''password'')]
                   \<and> js_prop (c_get (c_set c' ''user''
                                        (JObj [(''id'', js_prop user ''id''),
                                               (''email'', js_prop user ''email''),
                                               (''password'', js_prop user ''password'')])) ''user'')
                         ''password''
                       = js_prop user ''password''
                   \<and> (\<exists>log. events (authMiddleware verify next c')
                                = [Verify token ''BLOG_SECRET'',
                                   Set ''user'' (JObj [(''id'', js_prop user ''id''),
                                                       (''email'', js_prop user ''email''),
                                                       (''password'', js_prop user ''password'')]),
                                   Next] @ log))"
proof -
  let ?payload = "\<lambda>user. JObj [(''id'', js_prop user ''id''),
                               (''email'', js_prop user ''email''),
                               (''password'', js_prop user ''password'')]"
  have attach: "ctx (authMiddleware verify next c')
                  = snd (next (c_set c' ''user'' (?payload user)))
                \<and> c_get (c_set c' ''user'' (?payload user)) ''user'' = ?payload user
                \<and> js_prop (c_get (c_set c' ''user'' (?payload user)) ''user'') ''password''
                    = js_prop user ''password''
                \<and> (\<exists>log. events (authMiddleware verify next c')
                       = [Verify token ''BLOG_SECRET'', Set ''user'' (?payload user), Next] @ log)"
    if "header (req c') ''Authorization'' = Some (''Bearer '' @ token)"
      and "verify token ''BLOG_SECRET'' = Returns (?payload user)"
    for verify "next" c' token user
    using that
    by (cases "next (c_set c' ''user'' (?payload user))")
       (auto simp: authMiddleware_def auth_catch_def Let_def startsWith_def slice_def
          c_get_def c_set_def split: result.splits)
  from assms obtain data email password user token where
    "json_body (req c) = Returns data"
    "userSigninSchema_parse is_email data = Returns (email, password)"
    "findUnique (DATABASE_URL (env c)) email password = Returns user"
    "truthy user"
    "sign (?payload user) ''BLOG_SECRET'' = Returns token"
    by (auto simp: signin_def handler_catch_def c_json_def Let_def
        split: result.splits prod.splits if_splits exn.splits)
  with assms attach show ?thesis
    by (auto simp: signin_def c_json_def Let_def)
qed

theorem signin_payload_carries_password_witness:
  "response (signin example_is_email example_findUnique example_sign (example_context None))
     = Some \<lparr>status = 200,
             body = Json (JObj [(''message'', JStr ''Sign in successful''),
                                (''user'', example_user),
                                (''token'', JStr ''token-of-user-1/BLOG_SECRET'')])\<rparr>
   \<and> events (signin example_is_email example_findUnique example_sign (example_context None))
       = [FindUnique ''prisma://db'' ''a@b.com'' ''hunter22'',
          Sign (JObj [(''id'', JNum 1), (''email'', JStr ''a@b.com''),
                      (''password'', JStr ''hunter22'')]) ''BLOG_SECRET'']
   \<and> example_verify ''token-of-user-1/BLOG_SECRET'' ''BLOG_SECRET''
       = Returns (JObj [(''id'', JNum 1), (''email'', JStr ''a@b.com''),
                        (''password'', JStr ''hunter22'')])
   \<and> js_prop (c_get (ctx (authMiddleware example_verify next_ok
                             (example_context (Some ''Bearer token-of-user-1/BLOG_SECRET''))))
                 ''user'') ''password''
       = JStr ''hunter22''
   \<and> vars (example_context (Some ''Bearer token-of-user-1/BLOG_SECRET'')) ''user'' = None"
proof -
  let ?r = "\<lparr>status = 200,
             body = Json (JObj [(''message'', JStr ''Sign in successful''),
                                (''user'', example_user),
                                (''token'', JStr ''token-of-user-1/BLOG_SECRET'')])\<rparr>"
  let ?payload = "JObj [(''id'', JNum 1), (''email'', JStr ''a@b.com''),
                        (''password'', JStr ''hunter22'')]"
  let ?c' = "example_context (Some ''Bearer token-of-user-1/BLOG_SECRET'')"
  have r: "response (signin example_is_email example_findUnique example_sign (example_context None))
             = Some ?r"
    by (simp add: signin_def example_context_def userSigninSchema_parse_def example_is_email_def
        example_findUnique_def example_user_def example_sign_def Let_def c_json_def)
  have st: "status ?r = 200" by simp
  have ev: "events (signin example_is_email example_findUnique example_sign (example_context None))
             = [FindUnique ''prisma://db'' ''a@b.com'' ''hunter22'', Sign ?payload ''BLOG_SECRET'']"
    by (simp add: signin_def example_context_def userSigninSchema_parse_def example_is_email_def
        example_findUnique_def example_user_def example_sign_def Let_def)
  have h: "header (req ?c') ''Authorization'' = Some (''Bearer '' @ ''token-of-user-1/BLOG_SECRET'')"
    by (simp add: example_context_def header_def)
  have v: "example_verify ''token-of-user-1/BLOG_SECRET'' ''BLOG_SECRET'' = Returns ?payload"
    by (simp add: example_verify_def)
  have n: "vars ?c' ''user'' = None"
    by (simp add: example_context_def)
  from signin_payload_carries_password [OF r st] obtain email password user token where
    e: "events (signin example_is_email example_findUnique example_sign (example_context None))
             = [FindUnique (DATABASE_URL (env (example_context None))) email password,
                Sign (JObj [(''id'', js_prop user ''id''),
                            (''email'', js_prop user ''email''),
                            (''password'', js_prop user ''password'')]) ''BLOG_SECRET'']"
    and b: "body ?r = Json (JObj [(''message'', JStr ''Sign in successful''),
                                  (''user'', user), (''token'', JStr token)])"
    and g: "\<forall>verify next c'.
              header (req c') ''Authorization'' = Some (''Bearer '' @ token)
              \<and> verify token ''BLOG_SECRET''
                  = Returns (JObj [(''id'', js_prop user ''id''),
                                   (''email'', js_prop user ''email''),
                                   (''password'', js_prop user ''password'')])
              \<longrightarrow>
                ctx (authMiddleware verify next c')
                  = snd (next (c_set c' ''user''
                                (JObj [(''id'', js_prop user ''id''),
                                       (''email'', js_prop user ''email''),
                                       (''password'', js_prop user ''password'')])))"
    by blast
  from b have tk: "token = ''token-of-user-1/BLOG_SECRET''" by simp
  from e ev have "[FindUnique (DATABASE_URL (env (example_context None))) email password,
                   Sign (JObj [(''id'', js_prop user ''id''),
                               (''email'', js_prop user ''email''),
                               (''password'', js_prop user ''password'')]) ''BLOG_SECRET'']
                  = [FindUnique ''prisma://db'' ''a@b.com'' ''hunter22'', Sign ?payload ''BLOG_SECRET'']"
    by (simp only:)
  then have pl: "JObj [(''id'', js_prop user ''id''),
                       (''email'', js_prop user ''email''),
                       (''password'', js_prop user ''password'')] = ?payload"
    by (simp only: list.inject event.inject)
  from g [rule_format, of ?c' example_verify next_ok] h v tk pl
  have "ctx (authMiddleware example_verify next_ok ?c') = snd (next_ok (c_set ?c' ''user'' ?payload))"
    by simp
  then have "js_prop (c_get (ctx (authMiddleware example_verify next_ok ?c')) ''user'') ''password''
               = JStr ''hunter22''"
    by (simp add: next_ok_def c_get_def c_set_def)
  with r ev v n show ?thesis by simp
qed




end
